theory Spec2Isabelle
  imports Main
begin

section \<open>Strings as the program sees them\<close>

text \<open>
  Text is a \<^typ>\<open>string\<close>: a list of one-byte code points. \<open>str.lower()\<close> is the
  lower-casing of the code points below 256 (the ASCII capitals and the capitals of
  the Latin-1 block); every other code point is left as it is.
\<close>

definition upper_lower_table :: "(char \<times> char) list" where
  "upper_lower_table =
     zip ''ABCDEFGHIJKLMNOPQRSTUVWXYZ'' ''abcdefghijklmnopqrstuvwxyz'' @
     zip [CHR 0xC0, CHR 0xC1, CHR 0xC2, CHR 0xC3, CHR 0xC4, CHR 0xC5, CHR 0xC6, CHR 0xC7,
          CHR 0xC8, CHR 0xC9, CHR 0xCA, CHR 0xCB, CHR 0xCC, CHR 0xCD, CHR 0xCE, CHR 0xCF,
          CHR 0xD0, CHR 0xD1, CHR 0xD2, CHR 0xD3, CHR 0xD4, CHR 0xD5, CHR 0xD6,
          CHR 0xD8, CHR 0xD9, CHR 0xDA, CHR 0xDB, CHR 0xDC, CHR 0xDD, CHR 0xDE]
         [CHR 0xE0, CHR 0xE1, CHR 0xE2, CHR 0xE3, CHR 0xE4, CHR 0xE5, CHR 0xE6, CHR 0xE7,
          CHR 0xE8, CHR 0xE9, CHR 0xEA, CHR 0xEB, CHR 0xEC, CHR 0xED, CHR 0xEE, CHR 0xEF,
          CHR 0xF0, CHR 0xF1, CHR 0xF2, CHR 0xF3, CHR 0xF4, CHR 0xF5, CHR 0xF6,
          CHR 0xF8, CHR 0xF9, CHR 0xFA, CHR 0xFB, CHR 0xFC, CHR 0xFD, CHR 0xFE]"

definition lower_char :: "char \<Rightarrow> char" where
  "lower_char c = (case map_of upper_lower_table c of Some l \<Rightarrow> l | None \<Rightarrow> c)"

definition lower :: "string \<Rightarrow> string" where
  "lower s = map lower_char s"

text \<open>The operator \<open>kw in s\<close> on strings: \<open>kw\<close> occurs in \<open>s\<close> as a contiguous run.\<close>

fun startswith :: "string \<Rightarrow> string \<Rightarrow> bool" where
  "startswith s [] = True"
| "startswith [] (k # ks) = False"
| "startswith (c # cs) (k # ks) = (c = k \<and> startswith cs ks)"

fun str_contains :: "string \<Rightarrow> string \<Rightarrow> bool" where
  "str_contains kw [] = (kw = [])"
| "str_contains kw (c # cs) = (startswith (c # cs) kw \<or> str_contains kw cs)"

text \<open>Decimal text of a number, as \<open>str\<close> and an f-string print an integer.\<close>

definition digit_char :: "nat \<Rightarrow> char" where
  "digit_char n = ''0123456789'' ! n"

fun show_nat :: "nat \<Rightarrow> string" where
  "show_nat n =
     (if n < 10 then [digit_char n] else show_nat (n div 10) @ [digit_char (n mod 10)])"

definition show_int :: "int \<Rightarrow> string" where
  "show_int i = (if i < 0 then CHR ''-'' # show_nat (nat (- i)) else show_nat (nat i))"

fun join :: "string \<Rightarrow> string list \<Rightarrow> string" where
  "join sep [] = []"
| "join sep [x] = x"
| "join sep (x # y # ys) = x @ sep @ join sep (y # ys)"


section \<open>JSON values and \<open>json.dumps\<close>\<close>

text \<open>
  The values \<open>json.dumps\<close> is given and \<open>response.json()\<close> gives back: null, booleans,
  integers, strings, lists and dictionaries with string keys (kept in insertion
  order). Numbers with a fractional part are left out of the model.
\<close>

datatype jvalue =
    JNull
  | JBool bool
  | JInt int
  | JStr string
  | JArr "jvalue list"
  | JObj "(string \<times> jvalue) list"

definition hex_digit :: "nat \<Rightarrow> char" where
  "hex_digit n = ''0123456789abcdef'' ! n"

text \<open>
  \<open>json.dumps\<close> with its defaults (\<open>ensure_ascii=True\<close>): the quote, the backslash
  and the control characters with a short form are escaped by a backslash, every
  other code point outside the printable ASCII range as \<open>\u00XX\<close>.
\<close>

definition escape_char :: "char \<Rightarrow> string" where
  "escape_char c =
     (if c = CHR 0x22 then [CHR 0x5C, CHR 0x22]
      else if c = CHR 0x5C then [CHR 0x5C, CHR 0x5C]
      else if c = CHR 0x0A then [CHR 0x5C, CHR ''n'']
      else if c = CHR 0x0D then [CHR 0x5C, CHR ''r'']
      else if c = CHR 0x09 then [CHR 0x5C, CHR ''t'']
      else if c = CHR 0x0C then [CHR 0x5C, CHR ''f'']
      else if c = CHR 0x08 then [CHR 0x5C, CHR ''b'']
      else (let n = (of_char c :: nat) in
            if 32 \<le> n \<and> n \<le> 126 then [c]
            else [CHR 0x5C, CHR ''u'', CHR ''0'', CHR ''0'',
                  hex_digit (n div 16), hex_digit (n mod 16)]))"

definition dumps_str :: "string \<Rightarrow> string" where
  "dumps_str s = [CHR 0x22] @ concat (map escape_char s) @ [CHR 0x22]"

fun json_dumps :: "jvalue \<Rightarrow> string" where
  "json_dumps JNull = ''null''"
| "json_dumps (JBool b) = (if b then ''true'' else ''false'')"
| "json_dumps (JInt i) = show_int i"
| "json_dumps (JStr s) = dumps_str s"
| "json_dumps (JArr xs) = ''['' @ join '', '' (map json_dumps xs) @ '']''"
| "json_dumps (JObj kvs) =
     ''{'' @ join '', '' (map (\<lambda>kv. dumps_str (fst kv) @ '': '' @ json_dumps (snd kv)) kvs) @ ''}''"


section \<open>Exceptions\<close>

text \<open>
  The exception classes the handlers of \<open>app.py\<close> tell apart: \<open>sqlite3.Error\<close>,
  \<open>requests.exceptions.RequestException\<close>, and every other subclass of
  \<open>Exception\<close>. The string of an \<open>sqlite3.Error\<close> is \<open>str(e)\<close>, which its handler
  prints; the string of the others tells which exception it is. A tool returns
  \<open>Inl e\<close> when \<open>e\<close> leaves it.
\<close>

datatype exn =
    SqliteError string
  | RequestException string
  | PyException string


section \<open>Safety check\<close>

definition BANNED_SQL_KEYWORDS :: "string list" where
  "BANNED_SQL_KEYWORDS =
     [''delete'', ''drop'', ''update'', ''insert'', ''alter'',
      ''truncate'', ''grant'', ''revoke'', ''shutdown'']"

text \<open>The \<open>for keyword in BANNED_SQL_KEYWORDS\<close> loop, leaving at the first hit.\<close>

fun scan_keywords :: "string list \<Rightarrow> string \<Rightarrow> bool" where
  "scan_keywords [] query_lower = True"
| "scan_keywords (keyword # rest) query_lower =
     (if str_contains keyword query_lower then False else scan_keywords rest query_lower)"

definition is_query_safe :: "string \<Rightarrow> bool" where
  "is_query_safe sql_query = scan_keywords BANNED_SQL_KEYWORDS (lower sql_query)"


section \<open>Tool 1: the database query tool\<close>

definition DB_FILENAME :: string where
  "DB_FILENAME = ''movies.db''"

text \<open>
  What the tool does to the database connection, in the order it does it. A
  connection that \<open>sqlite3.connect\<close> failed to give is never \<open>Opened\<close>.
\<close>

datatype db_event = Opened | Executed string | Closed

text \<open>
  A \<open>pandas.DataFrame\<close> built from fetched rows and column names; \<open>len\<close> counts the
  rows and \<open>head n\<close> keeps the first \<open>n\<close> of them.
\<close>

record 'v dataframe =
  columns :: "string list"
  rows :: "'v list list"

definition len :: "'v dataframe \<Rightarrow> nat" where
  "len df = length (rows df)"

definition head :: "nat \<Rightarrow> 'v dataframe \<Rightarrow> 'v dataframe" where
  "head n df = df\<lparr>rows := take n (rows df)\<rparr>"

text \<open>
  The cursor after \<open>execute\<close>: what \<open>fetchall\<close> gives (or raises) and
  \<open>cur.description\<close> (\<open>None\<close>, or the column names \<open>desc[0]\<close>).
\<close>

record 'v cursor =
  fetchall :: "exn + 'v list list"
  description :: "string list option"

text \<open>
  The world the tool runs in: whether \<open>movies.db\<close> exists, what \<open>sqlite3.connect\<close>
  raises (if anything), what \<open>cur.execute\<close> does with a statement, and the library
  serialiser \<open>DataFrame.to_json(orient="records")\<close>, which may raise.
\<close>

record 'v db_env =
  path_exists :: bool
  connect :: "exn option"
  execute :: "string \<Rightarrow> exn + 'v cursor"
  to_json :: "'v dataframe \<Rightarrow> exn + string"

definition truncation_note :: "nat \<Rightarrow> string" where
  "truncation_note n = [CHR 0x0A] @ ''... (truncated, '' @ show_nat n @ '' more rows)''"

text \<open>The body of the \<open>try\<close> block of \<open>query_database\<close>.\<close>

definition query_database_try :: "'v db_env \<Rightarrow> string \<Rightarrow> (exn + string) \<times> db_event list" where
  "query_database_try env sql_query =
     (case connect env of
        Some e \<Rightarrow> (Inl e, [])
      | None \<Rightarrow>
         (case execute env sql_query of
            Inl e \<Rightarrow> (Inl e, [Opened])
          | Inr cur \<Rightarrow>
             (case fetchall cur of
                Inl e \<Rightarrow> (Inl e, [Opened, Executed sql_query])
              | Inr results \<Rightarrow>
                 (case description cur of
                    None \<Rightarrow>
                      (Inr (json_dumps (JObj [(''message'',
                              JStr ''Query executed, but no results to return.'')])),
                       [Opened, Executed sql_query, Closed])
                  | Some colnames \<Rightarrow>
                      if colnames = [] then
                        (Inr (json_dumps (JObj [(''message'',
                                JStr ''Query executed, but no results to return.'')])),
                         [Opened, Executed sql_query, Closed])
                      else
                        (let df = \<lparr>columns = colnames, rows = results\<rparr> in
                         if len df > 20 then
                           (case to_json env (head 20 df) of
                              Inl e \<Rightarrow> (Inl e, [Opened, Executed sql_query, Closed])
                            | Inr s \<Rightarrow>
                                (Inr (s @ truncation_note (len df - 20)),
                                 [Opened, Executed sql_query, Closed]))
                         else
                           (case to_json env df of
                              Inl e \<Rightarrow> (Inl e, [Opened, Executed sql_query, Closed])
                            | Inr s \<Rightarrow> (Inr s, [Opened, Executed sql_query, Closed])))))))"

text \<open>
  \<open>query_database\<close>: the two guards, then the \<open>try\<close> block with its handlers
  \<open>except sqlite3.Error\<close> and \<open>except Exception\<close>.
\<close>

definition query_database :: "'v db_env \<Rightarrow> string \<Rightarrow> (exn + string) \<times> db_event list" where
  "query_database env sql_query =
     (if \<not> is_query_safe sql_query then
        (Inr (json_dumps (JObj [(''error'',
           JStr ''Query is not allowed. Only read-only SELECT statements are permitted.'')])), [])
      else if \<not> path_exists env then
        (Inr (json_dumps (JObj [(''error'',
           JStr (''Database file '' @ [CHR 0x27] @ DB_FILENAME @ [CHR 0x27] @
                 '' not found. Please run setup.py.''))])), [])
      else
        (case query_database_try env sql_query of
           (Inr s, tr) \<Rightarrow> (Inr s, tr)
         | (Inl (SqliteError m), tr) \<Rightarrow>
             (Inr (json_dumps (JObj [(''error'', JStr (''An error occurred: '' @ m))])), tr)
         | (Inl _, tr) \<Rightarrow>
             (Inr (json_dumps (JObj [(''error'', JStr ''An unexpected error occurred.'')])), tr)))"


section \<open>Tool 2: the support ticket tool\<close>

text \<open>
  The response of \<open>requests.post\<close>: \<open>response.status_code\<close>, \<open>response.text\<close> and
  what \<open>response.json()\<close> gives or raises.
\<close>

record http_response =
  status_code :: int
  resp_text :: string
  json :: "exn + jvalue"

text \<open>One \<open>requests.post(api_url, json=data, headers=headers)\<close>.\<close>

datatype net_event = Post string "(string \<times> string) list" jvalue

text \<open>
  The world of the ticket tool. \<open>st.secrets\<close> is the mapping of the configured
  secrets when there is a secrets source to read, and otherwise the exception that
  every access to it raises, the test \<open>key in st.secrets\<close> included. Then the
  answer (or exception) of the issue tracker to a POST, and \<open>str\<close> of a list or
  dictionary, which the f-strings need only if the tracker sends one where a
  number or a URL is expected.
\<close>

record ticket_env =
  secrets :: "exn + (string \<rightharpoonup> string)"
  post :: "string \<Rightarrow> (string \<times> string) list \<Rightarrow> jvalue \<Rightarrow> exn + http_response"
  str_compound :: "jvalue \<Rightarrow> string"

text \<open>\<open>{v}\<close> inside an f-string, for a value that \<open>response.json()\<close> gave.\<close>

definition py_format :: "ticket_env \<Rightarrow> jvalue \<Rightarrow> string" where
  "py_format env v =
     (case v of
        JNull \<Rightarrow> ''None''
      | JBool b \<Rightarrow> (if b then ''True'' else ''False'')
      | JInt i \<Rightarrow> show_int i
      | JStr s \<Rightarrow> s
      | _ \<Rightarrow> str_compound env v)"

text \<open>\<open>d[key]\<close> on a value that \<open>response.json()\<close> gave.\<close>

definition getitem :: "jvalue \<Rightarrow> string \<Rightarrow> exn + jvalue" where
  "getitem d key =
     (case d of
        JObj kvs \<Rightarrow>
          (case map_of kvs key of
             None \<Rightarrow> Inl (PyException ''KeyError'')
           | Some v \<Rightarrow> Inr v)
      | _ \<Rightarrow> Inl (PyException ''TypeError''))"

text \<open>The body of the \<open>try\<close> block of \<open>create_support_ticket\<close>.\<close>

definition create_support_ticket_try ::
    "ticket_env \<Rightarrow> string \<Rightarrow> string \<Rightarrow> (exn + string) \<times> net_event list" where
  "create_support_ticket_try env title description_text =
     (case secrets env of
        Inl e \<Rightarrow> (Inl e, [])
      | Inr configured \<Rightarrow>
     (case configured ''GITHUB_TOKEN'' of
        None \<Rightarrow> (Inl (PyException ''KeyError''), [])
      | Some token \<Rightarrow>
     (case configured ''GITHUB_REPO'' of
        None \<Rightarrow> (Inl (PyException ''KeyError''), [])
      | Some repo_url \<Rightarrow>
         (let api_url = ''https://api.github.com/repos/'' @ repo_url @ ''/issues'';
              headers = [(''Authorization'', ''Bearer '' @ token),
                         (''Accept'', ''application/vnd.github.v3+json'')];
              data = JObj [(''title'', JStr title), (''body'', JStr description_text)];
              sent = [Post api_url headers data]
          in case post env api_url headers data of
               Inl e \<Rightarrow> (Inl e, sent)
             | Inr response \<Rightarrow>
                 if status_code response = 201 then
                   (case json response of
                      Inl e \<Rightarrow> (Inl e, sent)
                    | Inr issue_data \<Rightarrow>
                       (case getitem issue_data ''number'' of
                          Inl e \<Rightarrow> (Inl e, sent)
                        | Inr ticket_id \<Rightarrow>
                           (case getitem issue_data ''html_url'' of
                              Inl e \<Rightarrow> (Inl e, sent)
                            | Inr ticket_url \<Rightarrow>
                               (Inr (json_dumps (JObj
                                  [(''status'', JStr ''success''),
                                   (''ticket_id'', JStr (''GH-'' @ py_format env ticket_id)),
                                   (''ticket_url'', ticket_url),
                                   (''title'', JStr title),
                                   (''message'', JStr (''Support ticket GH-'' @
                                      py_format env ticket_id @
                                      '' has been successfully created. A human will review it at: '' @
                                      py_format env ticket_url))])),
                                sent))))
                 else
                   (Inr (json_dumps (JObj
                      [(''error'', JStr (''Failed to create ticket. GitHub API responded with status '' @
                          show_int (status_code response) @ ''.'')),
                       (''details'', JStr (resp_text response))])),
                    sent)))))"

text \<open>
  \<open>create_support_ticket\<close>: the check of the secrets, which stands before the
  \<open>try\<close> block, so that an exception of \<open>st.secrets\<close> leaves the tool; then the
  \<open>try\<close> block with its handlers \<open>except requests.exceptions.RequestException\<close> and
  \<open>except Exception\<close>.
\<close>

definition create_support_ticket ::
    "ticket_env \<Rightarrow> string \<Rightarrow> string \<Rightarrow> (exn + string) \<times> net_event list" where
  "create_support_ticket env title description_text =
     (case secrets env of
        Inl e \<Rightarrow> (Inl e, [])
      | Inr configured \<Rightarrow>
          if configured ''GITHUB_TOKEN'' = None \<or> configured ''GITHUB_REPO'' = None then
            (Inr (json_dumps (JObj [(''error'',
               JStr ''Failed to create ticket: Server is missing GitHub configuration.'')])), [])
          else
            (case create_support_ticket_try env title description_text of
               (Inr s, tr) \<Rightarrow> (Inr s, tr)
             | (Inl (RequestException m), tr) \<Rightarrow>
                 (Inr (json_dumps (JObj [(''error'',
                    JStr ''Failed to create ticket: A network error occurred.'')])), tr)
             | (Inl _, tr) \<Rightarrow>
                 (Inr (json_dumps (JObj [(''error'',
                    JStr ''An unexpected error occurred while creating the ticket.'')])), tr)))"


section \<open>The chat page and the agent loop\<close>

text \<open>A turn of \<open>st.session_state.messages\<close>: \<open>{"role": ..., "parts": ...}\<close>.\<close>

record message =
  role :: string
  parts :: string

definition initial_messages :: "message list" where
  "initial_messages =
     [\<lparr>role = ''model'', parts = ''Hello! How can I help you with the movie data today?''\<rparr>]"


text \<open>
  What \<open>chat.send_message\<close> is given: a text, or the dictionary
  \<open>{"function_response": {"name": ..., "response": {"content": ...}}}\<close>.
\<close>

datatype content = TextMsg string | FunctionResponse string jvalue

text \<open>
  \<open>response.candidates[0].content.parts[0]\<close>: its \<open>function_call\<close> message (the name
  and the keyword arguments, both empty when the part holds no call) and its
  text.
\<close>

record part =
  function_call :: "string \<times> (string \<times> string) list"
  part_text :: string

text \<open>
  The truth value of \<open>response_part.function_call\<close>, which the \<open>while\<close> tests: the
  message is false when nothing in it is set.
\<close>

definition truthy :: "string \<times> (string \<times> string) list \<Rightarrow> bool" where
  "truthy call = (\<not> (fst call = [] \<and> snd call = []))"

text \<open>The two tools of the registry \<open>tools\<close>.\<close>

datatype tool = QueryDatabase | CreateSupportTicket

definition tools :: "(string \<times> tool) list" where
  "tools = [(''query_database'', QueryDatabase),
            (''create_support_ticket'', CreateSupportTicket)]"

text \<open>
  The world of the agent: the worlds of the two tools, \<open>json.loads\<close>, and the model
  service. The model answers from the history \<open>start_chat\<close> was given and everything
  sent to it in this chat so far; the answer is the first part of the first
  candidate, or an exception (of the service, or of reading the part).
\<close>

record 'v agent_env =
  db :: "'v db_env"
  tracker :: ticket_env
  json_loads :: "string \<Rightarrow> exn + jvalue"
  model_reply :: "message list \<Rightarrow> content list \<Rightarrow> exn + part"

text \<open>
  \<open>tool_function(**args)\<close>: the keyword arguments must be exactly the parameters of
  the tool, or the call raises \<open>TypeError\<close>.
\<close>

definition call_tool :: "'v agent_env \<Rightarrow> tool \<Rightarrow> (string \<times> string) list \<Rightarrow> exn + string" where
  "call_tool env tool_function args =
     (case tool_function of
        QueryDatabase \<Rightarrow>
          (case map_of args ''sql_query'' of
             Some sql_query \<Rightarrow>
               if length args = 1 then fst (query_database (db env) sql_query)
               else Inl (PyException ''TypeError'')
           | None \<Rightarrow> Inl (PyException ''TypeError''))
      | CreateSupportTicket \<Rightarrow>
          (case (map_of args ''title'', map_of args ''description'') of
             (Some title, Some description_text) \<Rightarrow>
               if length args = 2 then
                 fst (create_support_ticket (tracker env) title description_text)
               else Inl (PyException ''TypeError'')
           | _ \<Rightarrow> Inl (PyException ''TypeError'')))"

definition unknown_tool_message :: "string \<Rightarrow> content" where
  "unknown_tool_message function_name =
     TextMsg (''Error: Unknown tool '' @ [CHR 0x27] @ function_name @ [CHR 0x27])"

text \<open>
  \<open>while response_part.function_call:\<close> one unit of fuel per round of the loop, and
  \<open>None\<close> when the fuel runs out. The state of the loop is everything sent to the
  model in this chat and every call \<open>tool_function(**args)\<close> made, by name and
  arguments. The result is how the loop was left (by an exception, or with the
  part whose function call is false) and that state.
\<close>

fun agent_loop ::
    "nat \<Rightarrow> 'v agent_env \<Rightarrow> message list \<Rightarrow> content list \<Rightarrow>
     (string \<times> (string \<times> string) list) list \<Rightarrow> part \<Rightarrow>
     ((exn + part) \<times> content list \<times> (string \<times> (string \<times> string) list) list) option" where
  "agent_loop 0 env history sent calls response_part = None"
| "agent_loop (Suc fuel) env history sent calls response_part =
     (if \<not> truthy (function_call response_part) then Some (Inr response_part, sent, calls)
      else
        (case function_call response_part of
           (function_name, args) \<Rightarrow>
             (case map_of tools function_name of
                Some tool_function \<Rightarrow>
                  (case call_tool env tool_function args of
                     Inl e \<Rightarrow> Some (Inl e, sent, calls @ [(function_name, args)])
                   | Inr function_result \<Rightarrow>
                       (case json_loads env function_result of
                          Inl e \<Rightarrow> Some (Inl e, sent, calls @ [(function_name, args)])
                        | Inr loaded \<Rightarrow>
                            (case model_reply env history
                                    (sent @ [FunctionResponse function_name loaded]) of
                               Inl e \<Rightarrow>
                                 Some (Inl e, sent @ [FunctionResponse function_name loaded],
                                       calls @ [(function_name, args)])
                             | Inr next_part \<Rightarrow>
                                 agent_loop fuel env history
                                   (sent @ [FunctionResponse function_name loaded])
                                   (calls @ [(function_name, args)]) next_part)))
              | None \<Rightarrow>
                  (case model_reply env history (sent @ [unknown_tool_message function_name]) of
                     Inl e \<Rightarrow> Some (Inl e, sent @ [unknown_tool_message function_name], calls)
                   | Inr next_part \<Rightarrow>
                       agent_loop fuel env history
                         (sent @ [unknown_tool_message function_name]) calls next_part))))"

text \<open>How the handling of one chat input ends.\<close>

datatype turn_outcome = Answered string | Failed exn

record turn_result =
  session :: "message list"
  history_sent :: "message list"
  sent_to_model :: "content list"
  tool_calls :: "(string \<times> (string \<times> string) list) list"
  outcome :: turn_outcome

text \<open>
  One chat input: the prompt is appended, the chat starts from
  \<open>st.session_state.messages[:-1]\<close>, the prompt is sent, the loop runs, and the
  final text (or the fixed fallback) is appended as a \<open>model\<close> turn. The outer
  \<open>except Exception\<close> ends the turn with \<open>st.error\<close> and appends nothing.
\<close>

definition run_turn :: "nat \<Rightarrow> 'v agent_env \<Rightarrow> message list \<Rightarrow> string \<Rightarrow> turn_result option" where
  "run_turn fuel env messages prompt =
     (let messages1 = messages @ [\<lparr>role = ''user'', parts = prompt\<rparr>];
          history = butlast messages1;
          first_sent = [TextMsg (parts (last messages1))]
      in case model_reply env history first_sent of
           Inl e \<Rightarrow>
             Some \<lparr>session = messages1, history_sent = history,
                   sent_to_model = first_sent, tool_calls = [], outcome = Failed e\<rparr>
         | Inr response_part \<Rightarrow>
             (case agent_loop fuel env history first_sent [] response_part of
                None \<Rightarrow> None
              | Some (Inl e, sent, calls) \<Rightarrow>
                  Some \<lparr>session = messages1, history_sent = history,
                        sent_to_model = sent, tool_calls = calls, outcome = Failed e\<rparr>
              | Some (Inr final_part, sent, calls) \<Rightarrow>
                  (let final_response =
                         (if part_text final_part \<noteq> [] then part_text final_part
                          else ''Sorry, I'' @ [CHR 0x27] @ ''m not sure how to respond to that.'')
                   in Some \<lparr>session = messages1 @ [\<lparr>role = ''model'', parts = final_response\<rparr>],
                            history_sent = history, sent_to_model = sent,
                            tool_calls = calls, outcome = Answered final_response\<rparr>)))"


text \<open>
  A model service that answers the \<open>n\<close>-th message of a chat with the \<open>n\<close>-th part
  of a script.
\<close>

definition scripted :: "part list \<Rightarrow> message list \<Rightarrow> content list \<Rightarrow> exn + part" where
  "scripted script history sent =
     (if length sent \<le> length script \<and> sent \<noteq> [] then Inr (script ! (length sent - 1))
      else Inl (PyException ''IndexError''))"


section \<open>Sample worlds\<close>

text \<open>
  Concrete worlds on which the theorems below are run. The cells of these
  databases are integers, and the stand-in for the \<open>pandas\<close> serialiser writes the
  frame as a list of records.
\<close>

definition demo_to_json :: "int dataframe \<Rightarrow> exn + string" where
  "demo_to_json df =
     Inr (json_dumps (JArr (map (\<lambda>row. JObj (zip (columns df) (map JInt row))) (rows df))))"

definition demo_db :: "int list list \<Rightarrow> int db_env" where
  "demo_db table =
     \<lparr>path_exists = True, connect = None,
      execute = (\<lambda>q. Inr \<lparr>fetchall = Inr table, description = Some [''ROWID'']\<rparr>),
      to_json = demo_to_json\<rparr>"

definition table21 :: "int list list" where
  "table21 = map (\<lambda>i. [int i]) [1..<22]"

definition table2 :: "int list list" where
  "table2 = map (\<lambda>i. [i]) [7, 8]"

definition no_result_db :: "int db_env" where
  "no_result_db =
     \<lparr>path_exists = True, connect = None,
      execute = (\<lambda>q. Inr \<lparr>fetchall = Inr [], description = None\<rparr>),
      to_json = demo_to_json\<rparr>"

definition broken_db :: "int db_env" where
  "broken_db =
     \<lparr>path_exists = True, connect = None,
      execute = (\<lambda>q. Inl (SqliteError ''near SELEC: syntax error'')),
      to_json = demo_to_json\<rparr>"

definition missing_db :: "int db_env" where
  "missing_db =
     \<lparr>path_exists = False, connect = None,
      execute = (\<lambda>q. Inl (SqliteError ''no such table: movies'')),
      to_json = demo_to_json\<rparr>"

text \<open>A tracker world with the given secrets configured and a fixed answer to every POST.\<close>

definition demo_tracker :: "(string \<times> string) list \<Rightarrow> exn + http_response \<Rightarrow> ticket_env" where
  "demo_tracker configured answer =
     \<lparr>secrets = Inr (map_of configured),
      post = (\<lambda>api_url headers data. answer),
      str_compound = (\<lambda>v. ''[...]'')\<rparr>"

definition demo_secrets :: "(string \<times> string) list" where
  "demo_secrets = [(''GOOGLE_API_KEY'', ''k''), (''GITHUB_TOKEN'', ''t''),
                   (''GITHUB_REPO'', ''owner/repo'')]"

text \<open>
  A tracker world with no secrets source at all: no \<open>secrets.toml\<close>, so that every
  access to \<open>st.secrets\<close> raises.
\<close>

definition no_secrets_source :: ticket_env where
  "no_secrets_source =
     \<lparr>secrets = Inl (PyException ''StreamlitSecretNotFoundError''),
      post = (\<lambda>api_url headers data. Inl (RequestException ''offline'')),
      str_compound = (\<lambda>v. ''[...]'')\<rparr>"

text \<open>
  \<open>json.loads\<close> on the one text the tools return in the sample runs, the two
  records of \<open>table2\<close>; the sample runs give it nothing else.
\<close>

definition demo_json_loads :: "string \<Rightarrow> exn + jvalue" where
  "demo_json_loads s =
     (if s = json_dumps (JArr [JObj [(''ROWID'', JInt 7)], JObj [(''ROWID'', JInt 8)]])
      then Inr (JArr [JObj [(''ROWID'', JInt 7)], JObj [(''ROWID'', JInt 8)]])
      else Inl (PyException ''JSONDecodeError''))"

definition demo_agent :: "part list \<Rightarrow> int agent_env" where
  "demo_agent script =
     \<lparr>db = demo_db table2,
      tracker = demo_tracker demo_secrets (Inl (RequestException ''offline'')),
      json_loads = demo_json_loads,
      model_reply = scripted script\<rparr>"

text \<open>The parts of the sample scripts.\<close>

definition asks_for :: "string \<Rightarrow> (string \<times> string) list \<Rightarrow> part" where
  "asks_for function_name args = \<lparr>function_call = (function_name, args), part_text = ''''\<rparr>"

definition says :: "string \<Rightarrow> part" where
  "says t = \<lparr>function_call = ('''', []), part_text = t\<rparr>"


section \<open>Properties of the safety check\<close>

lemma startswith_append: "startswith (kw @ suf) kw"
  by (induction kw) auto

lemma str_contains_append: "str_contains kw (pre @ kw @ suf)"
proof (induction pre)
  case Nil
  show ?case by (cases "kw @ suf") (use startswith_append [of kw suf] in auto)
next
  case (Cons c pre)
  then show ?case by simp
qed

lemma scan_keywords_hit:
  "kw \<in> set kws \<Longrightarrow> str_contains kw s \<Longrightarrow> \<not> scan_keywords kws s"
  by (induction kws) auto

lemma lower_append: "lower (a @ b) = lower a @ lower b"
  by (simp add: lower_def)

lemma is_query_safe_denies:
  assumes "kw \<in> set BANNED_SQL_KEYWORDS" and "lower t = kw"
  shows "\<not> is_query_safe (pre @ t @ suf)"
proof -
  have "str_contains kw (lower pre @ kw @ lower suf)"
    by (rule str_contains_append)
  then have "str_contains kw (lower (pre @ t @ suf))"
    using assms(2) by (simp add: lower_append)
  with assms(1) show ?thesis
    unfolding is_query_safe_def by (rule scan_keywords_hit)
qed


section \<open>Properties of the query tool\<close>

lemma query_database_try_result_set:
  assumes "connect env = None" and "execute env q = Inr cur"
    and "fetchall cur = Inr results" and "description cur = Some cols" and "cols \<noteq> []"
  shows "query_database_try env q =
           (if length results > 20 then
              (case to_json env \<lparr>columns = cols, rows = take 20 results\<rparr> of
                 Inl e \<Rightarrow> (Inl e, [Opened, Executed q, Closed])
               | Inr s \<Rightarrow> (Inr (s @ truncation_note (length results - 20)),
                            [Opened, Executed q, Closed]))
            else
              (case to_json env \<lparr>columns = cols, rows = results\<rparr> of
                 Inl e \<Rightarrow> (Inl e, [Opened, Executed q, Closed])
               | Inr s \<Rightarrow> (Inr s, [Opened, Executed q, Closed])))"
  using assms by (simp add: query_database_try_def len_def head_def Let_def split: sum.splits)

lemma query_database_guards_passed:
  assumes "is_query_safe q" and "path_exists env" and "query_database_try env q = (Inr s, tr)"
  shows "query_database env q = (Inr s, tr)"
  using assms by (simp add: query_database_def)






lemma safe_select: "is_query_safe ''SELECT ROWID FROM movies''"
  by (simp add: is_query_safe_def BANNED_SQL_KEYWORDS_def lower_def lower_char_def
      upper_lower_table_def)

lemma message_not_error:
  "json_dumps (JObj [(''message'', JStr a)]) \<noteq> json_dumps (JObj [(''error'', JStr m)])"
  by (simp add: dumps_str_def escape_char_def)

lemma message_not_empty_list:
  "json_dumps (JObj [(''message'', JStr a)]) \<noteq> json_dumps (JArr [])"
  by (simp add: dumps_str_def escape_char_def)


section \<open>Properties of the ticket tool\<close>

lemma ticket_try_after_post:
  assumes "secrets env = Inr cfg"
    and "cfg ''GITHUB_TOKEN'' = Some token" and "cfg ''GITHUB_REPO'' = Some repo"
  shows "create_support_ticket_try env title d =
     (let api_url = ''https://api.github.com/repos/'' @ repo @ ''/issues'';
          headers = [(''Authorization'', ''Bearer '' @ token),
                     (''Accept'', ''application/vnd.github.v3+json'')];
          data = JObj [(''title'', JStr title), (''body'', JStr d)];
          sent = [Post api_url headers data]
      in case post env api_url headers data of
           Inl e \<Rightarrow> (Inl e, sent)
         | Inr response \<Rightarrow>
             if status_code response = 201 then
               (case json response of
                  Inl e \<Rightarrow> (Inl e, sent)
                | Inr issue_data \<Rightarrow>
                   (case getitem issue_data ''number'' of
                      Inl e \<Rightarrow> (Inl e, sent)
                    | Inr ticket_id \<Rightarrow>
                       (case getitem issue_data ''html_url'' of
                          Inl e \<Rightarrow> (Inl e, sent)
                        | Inr ticket_url \<Rightarrow>
                           (Inr (json_dumps (JObj
                              [(''status'', JStr ''success''),
                               (''ticket_id'', JStr (''GH-'' @ py_format env ticket_id)),
                               (''ticket_url'', ticket_url),
                               (''title'', JStr title),
                               (''message'', JStr (''Support ticket GH-'' @
                                  py_format env ticket_id @
                                  '' has been successfully created. A human will review it at: '' @
                                  py_format env ticket_url))])),
                            sent))))
             else
               (Inr (json_dumps (JObj
                  [(''error'', JStr (''Failed to create ticket. GitHub API responded with status '' @
                      show_int (status_code response) @ ''.'')),
                   (''details'', JStr (resp_text response))])),
                sent))"
  using assms unfolding create_support_ticket_try_def by simp

lemma ticket_handlers:
  assumes "secrets env = Inr cfg"
    and "cfg ''GITHUB_TOKEN'' \<noteq> None" and "cfg ''GITHUB_REPO'' \<noteq> None"
  shows "create_support_ticket_try env title d = (Inr s, tr) \<Longrightarrow>
           create_support_ticket env title d = (Inr s, tr)"
    and "create_support_ticket_try env title d = (Inl (RequestException m), tr) \<Longrightarrow>
           create_support_ticket env title d =
             (Inr (json_dumps (JObj [(''error'',
                JStr ''Failed to create ticket: A network error occurred.'')])), tr)"
    and "fst (create_support_ticket_try env title d) = Inl e \<Longrightarrow>
           \<exists>msg. fst (create_support_ticket env title d) =
             Inr (json_dumps (JObj [(''error'', JStr msg)]))"
  using assms
  by (auto simp add: create_support_ticket_def split: prod.splits sum.splits exn.splits)


lemma ticket_raises_without_source:
  assumes "secrets env = Inl e"
  shows "create_support_ticket env title d = (Inl e, [])"
  using assms by (simp add: create_support_ticket_def)




lemma network_error_not_rejection:
  "json_dumps (JObj [(''error'', JStr ''Failed to create ticket: A network error occurred.'')]) \<noteq>
   json_dumps (JObj
     [(''error'', JStr (''Failed to create ticket. GitHub API responded with status '' @ c @ ''.'')),
      (''details'', JStr t)])"
  by (simp add: dumps_str_def escape_char_def)


section \<open>No line break in the text \<open>json.dumps\<close> writes\<close>










section \<open>Properties of the agent loop\<close>

lemma unknown_tool_round:
  assumes "map_of tools name = None" and "function_call p = (name, args)"
    and "truthy (function_call p)"
  shows "agent_loop (Suc fuel) env history sent calls p =
           (case model_reply env history (sent @ [unknown_tool_message name]) of
              Inl e \<Rightarrow> Some (Inl e, sent @ [unknown_tool_message name], calls)
            | Inr next_part \<Rightarrow>
                agent_loop fuel env history (sent @ [unknown_tool_message name]) calls next_part)"
  using assms by simp

lemma final_part_ends_loop:
  "\<not> truthy (function_call p) \<Longrightarrow>
     agent_loop (Suc fuel) env history sent calls p = Some (Inr p, sent, calls)"
  by simp







section \<open>The claims\<close>

text \<open>
  C1. Every SQL string that contains a denylisted keyword as a substring, in any
  mix of upper and lower case, is denied by \<open>is_query_safe\<close>, and \<open>query_database\<close>
  answers it with the "not allowed" error payload in every world, whether or
  not the database file exists: the safety check comes first, and nothing is
  opened or executed.
\<close>

theorem banned_keyword_rejected:
  assumes "kw \<in> set BANNED_SQL_KEYWORDS" and "lower t = kw"
  shows "\<not> is_query_safe (pre @ t @ suf) \<and>
         query_database env (pre @ t @ suf) =
           (Inr (json_dumps (JObj [(''error'',
              JStr ''Query is not allowed. Only read-only SELECT statements are permitted.'')])), [])"
proof -
  have "\<not> is_query_safe (pre @ t @ suf)"
    using assms by (rule is_query_safe_denies)
  then show ?thesis
    by (simp add: query_database_def)
qed

theorem banned_keyword_rejected_witness:
  "''drop'' \<in> set BANNED_SQL_KEYWORDS \<and> lower ''DrOp'' = ''drop'' \<and>
   \<not> is_query_safe (''SELECT 1; '' @ ''DrOp'' @ '' table movies'') \<and>
   query_database missing_db (''SELECT 1; '' @ ''DrOp'' @ '' table movies'') =
     (Inr (json_dumps (JObj [(''error'',
        JStr ''Query is not allowed. Only read-only SELECT statements are permitted.'')])), [])"
proof -
  have a: "''drop'' \<in> set BANNED_SQL_KEYWORDS"
    by (simp add: BANNED_SQL_KEYWORDS_def)
  have b: "lower ''DrOp'' = ''drop''"
    by (simp add: lower_def lower_char_def upper_lower_table_def)
  show ?thesis
    using a b banned_keyword_rejected [OF a b, of "''SELECT 1; ''" "'' table movies''" missing_db]
    by simp
qed




text \<open>
  C3. A query that passes both guards, executes, fetches its rows and has a result
  set: with more than 20 rows the tool returns the serialisation of the frame
  holding exactly the first 20 rows, in the order they were fetched, followed by
  a new line and the note saying how many rows were left out; with 20 rows or
  fewer it returns the serialisation of the whole frame and nothing after it.
\<close>

theorem truncation_after_twenty_rows:
  assumes "is_query_safe q" and "path_exists env" and "connect env = None"
    and "execute env q = Inr cur" and "fetchall cur = Inr results"
    and "description cur = Some cols" and "cols \<noteq> []"
  shows "(20 < length results \<longrightarrow>
            to_json env \<lparr>columns = cols, rows = take 20 results\<rparr> = Inr s \<longrightarrow>
            fst (query_database env q) =
              Inr (s @ [CHR 0x0A] @ ''... (truncated, '' @ show_nat (length results - 20) @
                   '' more rows)'')) \<and>
         (length results \<le> 20 \<longrightarrow>
            to_json env \<lparr>columns = cols, rows = results\<rparr> = Inr s \<longrightarrow>
            fst (query_database env q) = Inr s)"
proof -
  note body = query_database_try_result_set [OF assms(3-7)]
  have big: "fst (query_database env q) = Inr (s @ truncation_note (length results - 20))"
    if "20 < length results" and "to_json env \<lparr>columns = cols, rows = take 20 results\<rparr> = Inr s"
    using that body query_database_guards_passed [OF assms(1,2)] by simp
  have small: "fst (query_database env q) = Inr s"
    if "length results \<le> 20" and "to_json env \<lparr>columns = cols, rows = results\<rparr> = Inr s"
    using that body query_database_guards_passed [OF assms(1,2)] by simp
  show ?thesis
    using big small by (simp add: truncation_note_def)
qed

theorem truncation_after_twenty_rows_witness:
  "is_query_safe ''SELECT ROWID FROM movies'' \<and> 20 < length table21 \<and>
   to_json (demo_db table21) \<lparr>columns = [''ROWID''], rows = take 20 table21\<rparr> =
     Inr (json_dumps (JArr (map (\<lambda>row. JObj (zip [''ROWID''] (map JInt row))) (take 20 table21)))) \<and>
   fst (query_database (demo_db table21) ''SELECT ROWID FROM movies'') =
     Inr (json_dumps (JArr (map (\<lambda>row. JObj (zip [''ROWID''] (map JInt row))) (take 20 table21))) @
          [CHR 0x0A] @ ''... (truncated, 1 more rows)'') \<and>
   length table2 \<le> 20 \<and>
   fst (query_database (demo_db table2) ''SELECT ROWID FROM movies'') =
     Inr (json_dumps (JArr [JObj [(''ROWID'', JInt 7)], JObj [(''ROWID'', JInt 8)]]))"
proof -
  have len: "length table21 = 21" by (simp add: table21_def)
  have ser: "to_json (demo_db table21) \<lparr>columns = [''ROWID''], rows = take 20 table21\<rparr> =
     Inr (json_dumps (JArr (map (\<lambda>row. JObj (zip [''ROWID''] (map JInt row))) (take 20 table21))))"
    by (simp add: demo_db_def demo_to_json_def)
  have ser2: "to_json (demo_db table2) \<lparr>columns = [''ROWID''], rows = table2\<rparr> =
     Inr (json_dumps (JArr [JObj [(''ROWID'', JInt 7)], JObj [(''ROWID'', JInt 8)]]))"
    by (simp add: demo_db_def demo_to_json_def table2_def)
  have len2: "length table2 = 2" by (simp add: table2_def)
  have big: "fst (query_database (demo_db table21) ''SELECT ROWID FROM movies'') =
     Inr (json_dumps (JArr (map (\<lambda>row. JObj (zip [''ROWID''] (map JInt row))) (take 20 table21))) @
          [CHR 0x0A] @ ''... (truncated, '' @ show_nat (length table21 - 20) @ '' more rows)'')"
    using truncation_after_twenty_rows [of "''SELECT ROWID FROM movies''" "demo_db table21"
        "\<lparr>fetchall = Inr table21, description = Some [''ROWID'']\<rparr>" table21 "[''ROWID'']"
        "json_dumps (JArr (map (\<lambda>row. JObj (zip [''ROWID''] (map JInt row))) (take 20 table21)))"]
      safe_select len ser
    by (simp add: demo_db_def)
  have small: "fst (query_database (demo_db table2) ''SELECT ROWID FROM movies'') =
     Inr (json_dumps (JArr [JObj [(''ROWID'', JInt 7)], JObj [(''ROWID'', JInt 8)]]))"
    using truncation_after_twenty_rows [of "''SELECT ROWID FROM movies''" "demo_db table2"
        "\<lparr>fetchall = Inr table2, description = Some [''ROWID'']\<rparr>" "table2" "[''ROWID'']"
        "json_dumps (JArr [JObj [(''ROWID'', JInt 7)], JObj [(''ROWID'', JInt 8)]])"]
      safe_select ser2 len2
    by (simp add: demo_db_def)
  have one: "show_nat (length table21 - 20) = ''1''"
    by (simp add: len digit_char_def)
  show ?thesis
    using safe_select len len2 ser big small one by simp
qed

text \<open>
  C4, as stated, fails. A model that asks twice for a tool that is not in the
  registry and then answers in text: the loop sends a corrective message for each
  of the two requests, goes on, and the turn ends with the answer, not in an
  error state.
\<close>

theorem unknown_tool_loop_goes_on:
  "run_turn 5
     (demo_agent
        [asks_for ''lookup_movie'' [], asks_for ''lookup_movie'' [], says ''I cannot do that.''])
     initial_messages ''hi'' =
   Some \<lparr>session = initial_messages @
            [\<lparr>role = ''user'', parts = ''hi''\<rparr>,
             \<lparr>role = ''model'', parts = ''I cannot do that.''\<rparr>],
         history_sent = initial_messages,
         sent_to_model = [TextMsg ''hi'', unknown_tool_message ''lookup_movie'',
                          unknown_tool_message ''lookup_movie''],
         tool_calls = [],
         outcome = Answered ''I cannot do that.''\<rparr>"
  by (simp add: run_turn_def Let_def demo_agent_def scripted_def tools_def initial_messages_def
      asks_for_def says_def truthy_def numeral_nat)

text \<open>
  C4, amended. When the part the loop tests holds a function call and its name is
  not in the registry, that round of the loop calls no tool and sends exactly
  one corrective message for the request; the loop ends in an error state only
  if that send raises, and otherwise goes on with the reply of the model, ending
  normally when the reply holds no function call.
\<close>

theorem unknown_tool_corrected_and_continued:
  assumes "map_of tools name = None" and "function_call p = (name, args)"
    and "truthy (function_call p)"
  shows "(model_reply env history (sent @ [unknown_tool_message name]) = Inl e \<longrightarrow>
            agent_loop (Suc fuel) env history sent calls p =
              Some (Inl e, sent @ [unknown_tool_message name], calls)) \<and>
         (model_reply env history (sent @ [unknown_tool_message name]) = Inr p' \<longrightarrow>
            agent_loop (Suc fuel) env history sent calls p =
              agent_loop fuel env history (sent @ [unknown_tool_message name]) calls p') \<and>
         (model_reply env history (sent @ [unknown_tool_message name]) = Inr p' \<longrightarrow>
          \<not> truthy (function_call p') \<longrightarrow>
            agent_loop (Suc (Suc fuel)) env history sent calls p =
              Some (Inr p', sent @ [unknown_tool_message name], calls))"
  using unknown_tool_round [OF assms, of fuel env history sent calls]
    unknown_tool_round [OF assms, of "Suc fuel" env history sent calls]
    final_part_ends_loop [of p' fuel env history "sent @ [unknown_tool_message name]" calls]
  by simp

theorem unknown_tool_corrected_and_continued_witness:
  "map_of tools ''lookup_movie'' = None \<and>
   truthy (function_call (asks_for ''lookup_movie'' [])) \<and>
   \<not> truthy (function_call (says ''I cannot do that.'')) \<and>
   agent_loop (Suc (Suc 0))
     (demo_agent [asks_for ''lookup_movie'' [], says ''I cannot do that.''])
     initial_messages [TextMsg ''hi''] [] (asks_for ''lookup_movie'' []) =
   Some (Inr (says ''I cannot do that.''),
         [TextMsg ''hi''] @ [unknown_tool_message ''lookup_movie''], [])"
proof -
  have a: "map_of tools ''lookup_movie'' = None" by (simp add: tools_def)
  have b: "function_call (asks_for ''lookup_movie'' []) = (''lookup_movie'', [])"
    by (simp add: asks_for_def)
  have t: "truthy (function_call (asks_for ''lookup_movie'' []))"
    by (simp add: asks_for_def truthy_def)
  have f: "\<not> truthy (function_call (says ''I cannot do that.''))"
    by (simp add: says_def truthy_def)
  have c: "model_reply
      (demo_agent [asks_for ''lookup_movie'' [], says ''I cannot do that.''])
      initial_messages ([TextMsg ''hi''] @ [unknown_tool_message ''lookup_movie'']) =
      Inr (says ''I cannot do that.'')"
    by (simp add: demo_agent_def scripted_def)
  from unknown_tool_corrected_and_continued [OF a b t,
      where env = "demo_agent [asks_for ''lookup_movie'' [], says ''I cannot do that.'']"
        and history = initial_messages and sent = "[TextMsg ''hi'']" and fuel = 0
        and calls = "[]" and p' = "says ''I cannot do that.''"] c a t f
  show ?thesis by simp
qed




text \<open>
  C6 does not hold of the code. A statement that passes the safety check and that
  \<open>execute\<close> rejects with an \<open>sqlite3.Error\<close>: the connection was opened, the
  handler returns the error payload, and \<open>conn.close()\<close> is never called.
\<close>

theorem connection_left_open_on_error:
  "query_database broken_db ''SELEC 1'' =
     (Inr (json_dumps (JObj [(''error'',
        JStr ''An error occurred: near SELEC: syntax error'')])), [Opened]) \<and>
   Closed \<notin> set (snd (query_database broken_db ''SELEC 1''))"
proof -
  have safe: "is_query_safe ''SELEC 1''"
    by (simp add: is_query_safe_def BANNED_SQL_KEYWORDS_def lower_def lower_char_def
        upper_lower_table_def)
  have "query_database_try broken_db ''SELEC 1'' =
          (Inl (SqliteError ''near SELEC: syntax error''), [Opened])"
    by (simp add: query_database_try_def broken_db_def)
  then have "query_database broken_db ''SELEC 1'' =
     (Inr (json_dumps (JObj [(''error'',
        JStr ''An error occurred: near SELEC: syntax error'')])), [Opened])"
    using safe by (simp add: query_database_def broken_db_def)
  then show ?thesis by simp
qed

text \<open>
  C7. With both secrets present, a response with status 201 and a body holding
  \<open>number\<close> and \<open>html_url\<close>: the tool returns the success object, whose ticket id
  is \<open>GH-\<close> followed by the number, whose URL is the \<open>html_url\<close> of the response,
  and which holds the title given and the confirmation message.
\<close>

theorem ticket_created_on_201:
  assumes "secrets env = Inr cfg"
    and "cfg ''GITHUB_TOKEN'' = Some token" and "cfg ''GITHUB_REPO'' = Some repo"
    and "post env (''https://api.github.com/repos/'' @ repo @ ''/issues'')
           [(''Authorization'', ''Bearer '' @ token),
            (''Accept'', ''application/vnd.github.v3+json'')]
           (JObj [(''title'', JStr title), (''body'', JStr d)]) = Inr response"
    and "status_code response = 201" and "json response = Inr (JObj body)"
    and "map_of body ''number'' = Some (JInt n)"
    and "map_of body ''html_url'' = Some (JStr url)"
  shows "fst (create_support_ticket env title d) =
           Inr (json_dumps (JObj
             [(''status'', JStr ''success''),
              (''ticket_id'', JStr (''GH-'' @ show_int n)),
              (''ticket_url'', JStr url),
              (''title'', JStr title),
              (''message'', JStr (''Support ticket GH-'' @ show_int n @
                 '' has been successfully created. A human will review it at: '' @ url))]))"
proof -
  have "fst (create_support_ticket_try env title d) =
           Inr (json_dumps (JObj
             [(''status'', JStr ''success''),
              (''ticket_id'', JStr (''GH-'' @ show_int n)),
              (''ticket_url'', JStr url),
              (''title'', JStr title),
              (''message'', JStr (''Support ticket GH-'' @ show_int n @
                 '' has been successfully created. A human will review it at: '' @ url))]))"
    unfolding ticket_try_after_post [OF assms(1-3)]
    using assms(4-8) by (simp add: getitem_def py_format_def)
  then show ?thesis
    using ticket_handlers(1) [of env cfg title d _ "snd (create_support_ticket_try env title d)"]
      assms(1-3)
    by (cases "create_support_ticket_try env title d") simp
qed

theorem ticket_created_on_201_witness:
  "secrets (demo_tracker demo_secrets (Inr \<lparr>status_code = 201, resp_text = ''created'',
       json = Inr (JObj [(''number'', JInt 42), (''html_url'', JStr ''http://x/42'')])\<rparr>)) =
     Inr (map_of demo_secrets) \<and>
   map_of demo_secrets ''GITHUB_TOKEN'' = Some ''t'' \<and>
   map_of demo_secrets ''GITHUB_REPO'' = Some ''owner/repo'' \<and>
   fst (create_support_ticket
     (demo_tracker demo_secrets (Inr \<lparr>status_code = 201, resp_text = ''created'',
       json = Inr (JObj [(''number'', JInt 42), (''html_url'', JStr ''http://x/42'')])\<rparr>))
     ''Bug'' ''desc'') =
   Inr (json_dumps (JObj
     [(''status'', JStr ''success''),
      (''ticket_id'', JStr ''GH-42''),
      (''ticket_url'', JStr ''http://x/42''),
      (''title'', JStr ''Bug''),
      (''message'', JStr (''Support ticket GH-42 has been successfully created. '' @
                          ''A human will review it at: http://x/42''))]))"
proof -
  have n: "show_int 42 = ''42''"
    by (simp add: show_int_def digit_char_def)
  show ?thesis
    using ticket_created_on_201 [of
      "demo_tracker demo_secrets (Inr \<lparr>status_code = 201, resp_text = ''created'',
         json = Inr (JObj [(''number'', JInt 42), (''html_url'', JStr ''http://x/42'')])\<rparr>)"
      "map_of demo_secrets" "''t''" "''owner/repo''" "''Bug''" "''desc''"
      "\<lparr>status_code = 201, resp_text = ''created'',
         json = Inr (JObj [(''number'', JInt 42), (''html_url'', JStr ''http://x/42'')])\<rparr>"
      "[(''number'', JInt 42), (''html_url'', JStr ''http://x/42'')]" 42 "''http://x/42''"] n
    by (simp add: demo_tracker_def demo_secrets_def)
qed

text \<open>
  C8. With both secrets present: a response with any status other than 201 gives
  an error object that names the status code and holds the raw response body as
  details; a \<open>RequestException\<close> raised by the POST gives the network error
  object, which differs from every rejection error object.
\<close>

theorem ticket_rejected_or_unreachable:
  assumes "secrets env = Inr cfg"
    and "cfg ''GITHUB_TOKEN'' = Some token" and "cfg ''GITHUB_REPO'' = Some repo"
  shows "(post env (''https://api.github.com/repos/'' @ repo @ ''/issues'')
            [(''Authorization'', ''Bearer '' @ token),
             (''Accept'', ''application/vnd.github.v3+json'')]
            (JObj [(''title'', JStr title), (''body'', JStr d)]) = Inr response \<longrightarrow>
          status_code response \<noteq> 201 \<longrightarrow>
          fst (create_support_ticket env title d) =
            Inr (json_dumps (JObj
              [(''error'', JStr (''Failed to create ticket. GitHub API responded with status '' @
                  show_int (status_code response) @ ''.'')),
               (''details'', JStr (resp_text response))]))) \<and>
         (post env (''https://api.github.com/repos/'' @ repo @ ''/issues'')
            [(''Authorization'', ''Bearer '' @ token),
             (''Accept'', ''application/vnd.github.v3+json'')]
            (JObj [(''title'', JStr title), (''body'', JStr d)]) = Inl (RequestException m) \<longrightarrow>
          fst (create_support_ticket env title d) =
            Inr (json_dumps (JObj [(''error'',
               JStr ''Failed to create ticket: A network error occurred.'')]))) \<and>
         json_dumps (JObj [(''error'', JStr ''Failed to create ticket: A network error occurred.'')]) \<noteq>
         json_dumps (JObj
           [(''error'', JStr (''Failed to create ticket. GitHub API responded with status '' @
               show_int code @ ''.'')),
            (''details'', JStr raw)])"
proof -
  let ?url = "''https://api.github.com/repos/'' @ repo @ ''/issues''"
  let ?hd = "[(''Authorization'', ''Bearer '' @ token),
              (''Accept'', ''application/vnd.github.v3+json'')]"
  let ?data = "JObj [(''title'', JStr title), (''body'', JStr d)]"
  have sec: "cfg ''GITHUB_TOKEN'' \<noteq> None" "cfg ''GITHUB_REPO'' \<noteq> None"
    using assms by simp_all
  have rejected: "fst (create_support_ticket env title d) =
            Inr (json_dumps (JObj
              [(''error'', JStr (''Failed to create ticket. GitHub API responded with status '' @
                  show_int (status_code response) @ ''.'')),
               (''details'', JStr (resp_text response))]))"
    if "post env ?url ?hd ?data = Inr response" and "status_code response \<noteq> 201"
  proof -
    have "create_support_ticket_try env title d =
            (Inr (json_dumps (JObj
              [(''error'', JStr (''Failed to create ticket. GitHub API responded with status '' @
                  show_int (status_code response) @ ''.'')),
               (''details'', JStr (resp_text response))])), [Post ?url ?hd ?data])"
      unfolding ticket_try_after_post [OF assms] using that by simp
    from ticket_handlers(1) [OF assms(1) sec this] show ?thesis by simp
  qed
  have unreachable: "fst (create_support_ticket env title d) =
            Inr (json_dumps (JObj [(''error'',
               JStr ''Failed to create ticket: A network error occurred.'')]))"
    if "post env ?url ?hd ?data = Inl (RequestException m)"
  proof -
    have "create_support_ticket_try env title d = (Inl (RequestException m), [Post ?url ?hd ?data])"
      unfolding ticket_try_after_post [OF assms] using that by simp
    from ticket_handlers(2) [OF assms(1) sec this] show ?thesis by simp
  qed
  from rejected unreachable network_error_not_rejection [of "show_int code" raw]
  show ?thesis by blast
qed

theorem ticket_rejected_or_unreachable_witness:
  "secrets (demo_tracker demo_secrets (Inl (RequestException ''offline''))) =
     Inr (map_of demo_secrets) \<and>
   map_of demo_secrets ''GITHUB_TOKEN'' = Some ''t'' \<and>
   map_of demo_secrets ''GITHUB_REPO'' = Some ''owner/repo'' \<and>
   status_code \<lparr>status_code = 422, resp_text = ''Validation Failed'', json = Inl (PyException '''')\<rparr> \<noteq> 201 \<and>
   fst (create_support_ticket
     (demo_tracker demo_secrets (Inr \<lparr>status_code = 422, resp_text = ''Validation Failed'',
        json = Inl (PyException '''')\<rparr>)) ''Bug'' ''desc'') =
   Inr (json_dumps (JObj
     [(''error'', JStr ''Failed to create ticket. GitHub API responded with status 422.''),
      (''details'', JStr ''Validation Failed'')])) \<and>
   fst (create_support_ticket
     (demo_tracker demo_secrets (Inl (RequestException ''offline''))) ''Bug'' ''desc'') =
   Inr (json_dumps (JObj [(''error'',
      JStr ''Failed to create ticket: A network error occurred.'')]))"
proof -
  have n: "show_int 422 = ''422''"
    by (simp add: show_int_def digit_char_def)
  have a: "fst (create_support_ticket
     (demo_tracker demo_secrets (Inr \<lparr>status_code = 422, resp_text = ''Validation Failed'',
        json = Inl (PyException '''')\<rparr>)) ''Bug'' ''desc'') =
   Inr (json_dumps (JObj
     [(''error'', JStr (''Failed to create ticket. GitHub API responded with status '' @
         show_int 422 @ ''.'')),
      (''details'', JStr ''Validation Failed'')]))"
    using ticket_rejected_or_unreachable [of
      "demo_tracker demo_secrets (Inr \<lparr>status_code = 422, resp_text = ''Validation Failed'',
        json = Inl (PyException '''')\<rparr>)"
      "map_of demo_secrets" "''t''" "''owner/repo''" "''Bug''" "''desc''"
      "\<lparr>status_code = 422, resp_text = ''Validation Failed'', json = Inl (PyException '''')\<rparr>"]
    by (simp add: demo_tracker_def demo_secrets_def)
  have b: "fst (create_support_ticket
     (demo_tracker demo_secrets (Inl (RequestException ''offline''))) ''Bug'' ''desc'') =
   Inr (json_dumps (JObj [(''error'',
      JStr ''Failed to create ticket: A network error occurred.'')]))"
    using ticket_rejected_or_unreachable [of
      "demo_tracker demo_secrets (Inl (RequestException ''offline''))"
      "map_of demo_secrets" "''t''" "''owner/repo''" "''Bug''" "''desc''" _ "''offline''"]
    by (simp add: demo_tracker_def demo_secrets_def)
  show ?thesis using a b n by (simp add: demo_tracker_def demo_secrets_def)
qed

text \<open>
  C9, as the code has it. With no secrets source at all, so that the token and the
  repository identifier are both missing from the configuration, the test
  \<open>"GITHUB_TOKEN" not in st.secrets\<close> raises, and it stands before the \<open>try\<close> block:
  the exception leaves \<open>create_support_ticket("Bug", "desc")\<close>, which returns no
  payload (and issues no POST).
\<close>

theorem ticket_tool_raises_without_secrets_source:
  "create_support_ticket no_secrets_source ''Bug'' ''desc'' =
     (Inl (PyException ''StreamlitSecretNotFoundError''), [])"
  by (simp add: create_support_ticket_def no_secrets_source_def)

text \<open>
  C10. A query that passes both guards, executes and fetches, and whose cursor has
  no description columns: the tool closes the connection and returns the
  no-results message object, which is neither the empty list nor an error
  object.
\<close>

theorem no_result_set_message:
  assumes "is_query_safe q" and "path_exists env" and "connect env = None"
    and "execute env q = Inr cur" and "fetchall cur = Inr results"
    and "description cur = None \<or> description cur = Some []"
  shows "query_database env q =
           (Inr (json_dumps (JObj [(''message'',
              JStr ''Query executed, but no results to return.'')])),
            [Opened, Executed q, Closed]) \<and>
         json_dumps (JObj [(''message'', JStr ''Query executed, but no results to return.'')]) \<noteq>
           json_dumps (JArr []) \<and>
         json_dumps (JObj [(''message'', JStr ''Query executed, but no results to return.'')]) \<noteq>
           json_dumps (JObj [(''error'', JStr m)])"
proof -
  have "query_database_try env q =
           (Inr (json_dumps (JObj [(''message'',
              JStr ''Query executed, but no results to return.'')])),
            [Opened, Executed q, Closed])"
    using assms(3-6) by (auto simp add: query_database_try_def)
  then have "query_database env q =
           (Inr (json_dumps (JObj [(''message'',
              JStr ''Query executed, but no results to return.'')])),
            [Opened, Executed q, Closed])"
    using assms(1,2) by (simp add: query_database_def)
  with message_not_error message_not_empty_list show ?thesis by blast
qed

theorem no_result_set_message_witness:
  "is_query_safe ''PRAGMA optimize'' \<and> description \<lparr>fetchall = Inr ([] :: int list list), description = None\<rparr> = None \<and>
   query_database no_result_db ''PRAGMA optimize'' =
     (Inr (json_dumps (JObj [(''message'',
        JStr ''Query executed, but no results to return.'')])),
      [Opened, Executed ''PRAGMA optimize'', Closed])"
proof -
  have safe: "is_query_safe ''PRAGMA optimize''"
    by (simp add: is_query_safe_def BANNED_SQL_KEYWORDS_def lower_def lower_char_def
        upper_lower_table_def)
  show ?thesis
    using safe no_result_set_message [of "''PRAGMA optimize''" no_result_db
        "\<lparr>fetchall = Inr [], description = None\<rparr>" "[]"]
    by (simp add: no_result_db_def)
qed


end
